theory Spec2Isabelle
  imports Main
begin

section \<open>Data model of \<open>decision_engine.py\<close>\<close>

text \<open>
  The four dataclasses of the module. \<open>Alternative\<close> and \<open>Recommendation\<close> both have a
  field \<open>database\<close>: the plain name is the field of \<open>Recommendation\<close>, the field of
  \<open>Alternative\<close> is written \<open>Alternative.database\<close>.
\<close>

record DatabaseProfile =
  name :: string
  db_type :: string
  score :: int
  pros :: "string list"
  cons :: "string list"

record Tradeoff =
  title :: string
  description :: string

record Alternative =
  database :: string
  reason :: string

record Recommendation =
  database :: string
  confidence :: string
  reasoning :: "string list"

text \<open>
  \<open>user_inputs: Dict[str, str]\<close> is a finite map; \<open>user_inputs[k]\<close> on an absent key raises
  \<open>KeyError\<close>, and \<open>profiles[0]\<close> on an empty list raises \<open>IndexError\<close>. These are the only
  two exceptions the module can raise on inputs of its declared types.
\<close>

type_synonym inputs = "string \<rightharpoonup> string"

type_synonym score_table = "(string \<times> (string \<times> int) list) list"

type_synonym score_map = "string \<rightharpoonup> int"

datatype error = KeyError string | IndexError

definition getitem :: "('k \<rightharpoonup> 'v) \<Rightarrow> 'k \<Rightarrow> ('k \<Rightarrow> error) \<Rightarrow> error + 'v" where
  "getitem d k err = (case d k of None \<Rightarrow> Inl (err k) | Some v \<Rightarrow> Inr v)"

definition bindE :: "error + 'a \<Rightarrow> ('a \<Rightarrow> error + 'b) \<Rightarrow> error + 'b" where
  "bindE m f = (case m of Inl e \<Rightarrow> Inl e | Inr v \<Rightarrow> f v)"

text \<open>The dictionary returned by \<open>analyze\<close>, one field per key.\<close>

record AnalysisResult =
  profiles :: "DatabaseProfile list"
  tradeoffs :: "Tradeoff list"
  recommendation :: Recommendation
  alternatives :: "Alternative list"
  scores :: score_map

section \<open>Static tables (\<open>__init__\<close>)\<close>

definition databases :: "string list" where
  "databases = [''mysql'', ''postgresql'', ''mongodb'']"

definition app_type_scores :: score_table where
  "app_type_scores =
    [(''Web'', [(''mysql'', 3), (''postgresql'', 3), (''mongodb'', 2)]),
     (''Analytics'', [(''mysql'', 2), (''postgresql'', 4), (''mongodb'', 1)]),
     (''Real-time'', [(''mysql'', 2), (''postgresql'', 2), (''mongodb'', 4)])]"

definition data_structure_scores :: score_table where
  "data_structure_scores =
    [(''Structured'', [(''mysql'', 4), (''postgresql'', 4), (''mongodb'', 1)]),
     (''Semi-structured'', [(''mysql'', 2), (''postgresql'', 3), (''mongodb'', 4)]),
     (''Unstructured'', [(''mysql'', 1), (''postgresql'', 2), (''mongodb'', 4)])]"

definition scalability_scores :: score_table where
  "scalability_scores =
    [(''Low'', [(''mysql'', 3), (''postgresql'', 3), (''mongodb'', 2)]),
     (''Medium'', [(''mysql'', 3), (''postgresql'', 3), (''mongodb'', 3)]),
     (''High'', [(''mysql'', 2), (''postgresql'', 2), (''mongodb'', 4)])]"

definition transaction_scores :: score_table where
  "transaction_scores =
    [(''Low'', [(''mysql'', 2), (''postgresql'', 2), (''mongodb'', 3)]),
     (''High'', [(''mysql'', 4), (''postgresql'', 4), (''mongodb'', 2)])]"

definition schema_scores :: score_table where
  "schema_scores =
    [(''Yes'', [(''mysql'', 1), (''postgresql'', 2), (''mongodb'', 4)]),
     (''No'', [(''mysql'', 4), (''postgresql'', 4), (''mongodb'', 2)])]"

text \<open>
  \<open>db_profiles\<close>: the inner dictionaries all have the same four literal keys \<open>name\<close>,
  \<open>type\<close>, \<open>pros\<close> and \<open>cons\<close>, so each is a record with these four fields.
\<close>

record ProfileEntry =
  entry_name :: string
  entry_type :: string
  entry_pros :: "string list"
  entry_cons :: "string list"

definition db_profiles :: "(string \<times> ProfileEntry) list" where
  "db_profiles =
    [(''mysql'',
      \<lparr>entry_name = ''MySQL'', entry_type = ''Relational (SQL)'',
       entry_pros = [''Mature and widely adopted with extensive community support'',
               ''Excellent for structured data with ACID compliance'',
               ''Strong performance for read-heavy workloads'',
               ''Easy to learn and widely supported by hosting providers'',
               ''Great for traditional web applications''],
       entry_cons = [''Limited support for complex analytics queries'',
               ''Horizontal scaling requires additional complexity (sharding)'',
               ''Less flexible with schema changes'',
               ''JSON support is basic compared to PostgreSQL'',
               ''Advanced features lag behind PostgreSQL'']\<rparr>),
     (''postgresql'',
      \<lparr>entry_name = ''PostgreSQL'', entry_type = ''Relational (SQL)'',
       entry_pros = [''Most advanced open-source relational database'',
               ''Excellent for complex queries and analytics'',
               ''Superior JSON/JSONB support for semi-structured data'',
               ''Strong extensibility with custom functions and data types'',
               ''Best-in-class data integrity and ACID compliance''],
       entry_cons = [''Slightly steeper learning curve than MySQL'',
               ''Higher memory consumption'',
               ''Horizontal scaling still requires effort'',
               ''Can be overkill for simple applications'',
               ''Configuration complexity for optimization'']\<rparr>),
     (''mongodb'',
      \<lparr>entry_name = ''MongoDB'', entry_type = ''NoSQL (Document)'',
       entry_pros = [''Excellent horizontal scalability (built-in sharding)'',
               ''Schema flexibility for evolving data models'',
               ''High performance for real-time applications'',
               ''Natural fit for JSON/document-based data'',
               ''Easy to get started with minimal setup''],
       entry_cons = [''Eventual consistency can complicate transactions'',
               ''No built-in joins (requires application-level logic)'',
               ''Higher storage overhead'',
               ''Not ideal for complex relational data'',
               ''ACID transactions only within single documents by default'']\<rparr>)]"

section \<open>\<open>calculate_scores\<close>\<close>

text \<open>
  \<open>for db in self.databases: scores[db] += row[db]\<close>. The augmented assignment reads
  \<open>scores[db]\<close>, then \<open>row[db]\<close>, then stores the sum.
\<close>

fun add_row :: "(string \<rightharpoonup> int) \<Rightarrow> string list \<Rightarrow> score_map \<Rightarrow> error + score_map" where
  "add_row row [] sc = Inr sc"
| "add_row row (db # dbs) sc =
     bindE (getitem sc db KeyError) (\<lambda>t.
     bindE (getitem row db KeyError) (\<lambda>n.
     add_row row dbs (sc(db \<mapsto> t + n))))"

text \<open>
  One of the five blocks of \<open>calculate_scores\<close>:
  \<open>if user_inputs[key] in table: for db in self.databases: scores[db] += table[user_inputs[key]][db]\<close>.
\<close>

definition score_criterion :: "inputs \<Rightarrow> string \<Rightarrow> score_table \<Rightarrow> score_map \<Rightarrow> error + score_map" where
  "score_criterion user_inputs key table sc =
     bindE (getitem user_inputs key KeyError) (\<lambda>v.
       case map_of table v of
         None \<Rightarrow> Inr sc
       | Some row \<Rightarrow> add_row (map_of row) databases sc)"

definition calculate_scores :: "inputs \<Rightarrow> error + score_map" where
  "calculate_scores user_inputs =
     bindE (score_criterion user_inputs ''app_type'' app_type_scores
             (map_of (map (\<lambda>db. (db, 0)) databases))) (\<lambda>s1.
     bindE (score_criterion user_inputs ''data_structure'' data_structure_scores s1) (\<lambda>s2.
     bindE (score_criterion user_inputs ''scalability'' scalability_scores s2) (\<lambda>s3.
     bindE (score_criterion user_inputs ''transactions'' transaction_scores s3) (\<lambda>s4.
     score_criterion user_inputs ''schema_flexibility'' schema_scores s4))))"

section \<open>\<open>generate_database_profiles\<close>\<close>

fun build_profiles :: "score_map \<Rightarrow> string list \<Rightarrow> error + DatabaseProfile list" where
  "build_profiles sc [] = Inr []"
| "build_profiles sc (db_key # ks) =
     bindE (getitem (map_of db_profiles) db_key KeyError) (\<lambda>e.
     bindE (getitem sc db_key KeyError) (\<lambda>n.
     bindE (build_profiles sc ks) (\<lambda>ps.
     Inr (\<lparr>name = entry_name e, db_type = entry_type e, score = n,
           pros = entry_pros e, cons = entry_cons e\<rparr> # ps))))"

text \<open>
  \<open>list.sort(key=f, reverse=True)\<close>: a stable sort into descending key order. CPython
  reverses the list, sorts it stably in ascending order and reverses it again, which
  keeps elements of equal key in their original order.
\<close>

definition sort_reverse :: "('a \<Rightarrow> int) \<Rightarrow> 'a list \<Rightarrow> 'a list" where
  "sort_reverse f xs = rev (sort_key f (rev xs))"

definition generate_database_profiles :: "score_map \<Rightarrow> error + DatabaseProfile list" where
  "generate_database_profiles sc =
     bindE (build_profiles sc databases) (\<lambda>ps. Inr (sort_reverse score ps))"

section \<open>Conditions on the input\<close>

text \<open>
  \<open>user_inputs[key] == v\<close> and \<open>user_inputs[key] != v\<close>; \<open>a and b\<close> evaluates \<open>b\<close> only when
  \<open>a\<close> is true; \<open>if cond: xs.append(x)\<close>.
\<close>

definition key_is :: "inputs \<Rightarrow> string \<Rightarrow> string \<Rightarrow> error + bool" where
  "key_is user_inputs key v = bindE (getitem user_inputs key KeyError) (\<lambda>x. Inr (x = v))"

definition key_is_not :: "inputs \<Rightarrow> string \<Rightarrow> string \<Rightarrow> error + bool" where
  "key_is_not user_inputs key v = bindE (getitem user_inputs key KeyError) (\<lambda>x. Inr (x \<noteq> v))"

definition and_then :: "error + bool \<Rightarrow> error + bool \<Rightarrow> error + bool" where
  "and_then a b = bindE a (\<lambda>x. if x then b else Inr False)"

definition append_if :: "error + bool \<Rightarrow> 'a \<Rightarrow> 'a list \<Rightarrow> error + 'a list" where
  "append_if cond x xs = bindE cond (\<lambda>c. Inr (if c then xs @ [x] else xs))"

section \<open>\<open>identify_tradeoffs\<close>\<close>

definition schema_tradeoff :: Tradeoff where
  "schema_tradeoff =
     \<lparr>title = ''Schema Rigidity vs Flexibility'',
      description = ''You want structured data but also schema flexibility. ''
        @ ''SQL databases enforce schemas strongly, while MongoDB offers ''
        @ ''flexibility but sacrifices relational integrity.''\<rparr>"

definition consistency_tradeoff :: Tradeoff where
  "consistency_tradeoff =
     \<lparr>title = ''Consistency vs Scalability (CAP Theorem)'',
      description = ''High scalability often requires eventual consistency (MongoDB), ''
        @ ''but high transaction requirements need strong ACID guarantees ''
        @ ''(PostgreSQL/MySQL). This is a fundamental distributed systems trade-off.''\<rparr>"

definition analytics_tradeoff :: Tradeoff where
  "analytics_tradeoff =
     \<lparr>title = ''SQL vs NoSQL for Analytics'',
      description = ''SQL databases excel at complex queries and joins, but NoSQL scales ''
        @ ''better horizontally. Consider PostgreSQL with read replicas or ''
        @ ''specialized analytics databases like ClickHouse.''\<rparr>"

definition document_tradeoff :: Tradeoff where
  "document_tradeoff =
     \<lparr>title = ''Document Flexibility vs Transaction Integrity'',
      description = ''MongoDB handles unstructured data well but has limited multi-document ''
        @ ''transaction support. PostgreSQL JSONB offers a middle ground with ''
        @ ''strong transactions and flexible document storage.''\<rparr>"

definition read_write_tradeoff :: Tradeoff where
  "read_write_tradeoff =
     \<lparr>title = ''Read Optimization vs Write Optimization'',
      description = ''MySQL excels at read-heavy workloads, MongoDB at write-heavy ones. ''
        @ ''PostgreSQL balances both. Consider your read/write ratio.''\<rparr>"

definition identify_tradeoffs :: "inputs \<Rightarrow> error + Tradeoff list" where
  "identify_tradeoffs user_inputs =
     bindE (append_if (and_then (key_is user_inputs ''data_structure'' ''Structured'')
                                (key_is user_inputs ''schema_flexibility'' ''Yes''))
              schema_tradeoff []) (\<lambda>t1.
     bindE (append_if (and_then (key_is user_inputs ''scalability'' ''High'')
                                (key_is user_inputs ''transactions'' ''High''))
              consistency_tradeoff t1) (\<lambda>t2.
     bindE (append_if (and_then (key_is user_inputs ''app_type'' ''Analytics'')
                                (key_is user_inputs ''scalability'' ''High''))
              analytics_tradeoff t2) (\<lambda>t3.
     bindE (append_if (and_then (key_is user_inputs ''data_structure'' ''Unstructured'')
                                (key_is user_inputs ''transactions'' ''High''))
              document_tradeoff t3) (\<lambda>t4.
     append_if (key_is user_inputs ''app_type'' ''Web'') read_write_tradeoff t4))))"

section \<open>\<open>generate_recommendation\<close>\<close>

text \<open>\<open>str\<close> of a Python integer, as the f-string of the closeness note formats the scores.\<close>

fun str_nat :: "nat \<Rightarrow> string" where
  "str_nat n =
     (if n < 10 then [''0123456789'' ! n]
      else str_nat (n div 10) @ [''0123456789'' ! (n mod 10)])"

declare str_nat.simps [simp del]

definition str_int :: "int \<Rightarrow> string" where
  "str_int i = (if i < 0 then CHR ''-'' # str_nat (nat (- i)) else str_nat (nat i))"

text \<open>The three branches on \<open>top_db.name\<close>.\<close>

definition mysql_reasoning :: "inputs \<Rightarrow> error + string list" where
  "mysql_reasoning user_inputs =
     bindE (append_if (key_is user_inputs ''transactions'' ''High'')
              (''Strong ACID compliance meets your transaction requirements.'')
              [''MySQL is recommended for your traditional web application needs ''
                 @ ''with structured data.'']) (\<lambda>r1.
     bindE (append_if (key_is_not user_inputs ''scalability'' ''High'')
              (''Vertical scaling is sufficient for your scalability needs.'') r1) (\<lambda>r2.
     append_if (key_is user_inputs ''app_type'' ''Web'')
       (''Proven track record for web applications with excellent ''
          @ ''community support.'') r2))"

definition postgresql_reasoning :: "inputs \<Rightarrow> error + string list" where
  "postgresql_reasoning user_inputs =
     bindE (append_if (key_is user_inputs ''app_type'' ''Analytics'')
              (''Superior query optimization and window functions support ''
                 @ ''complex analytics workloads.'')
              [''PostgreSQL offers the best balance of advanced features for ''
                 @ ''your requirements.'']) (\<lambda>r1.
     bindE (append_if (key_is user_inputs ''data_structure'' ''Semi-structured'')
              (''Excellent JSONB support handles semi-structured data efficiently ''
                 @ ''while maintaining relational integrity.'') r1) (\<lambda>r2.
     bindE (append_if (key_is user_inputs ''transactions'' ''High'')
              (''Industry-leading ACID compliance and advanced transaction ''
                 @ ''isolation ensures data integrity.'') r2) (\<lambda>r3.
     append_if (key_is user_inputs ''schema_flexibility'' ''Yes'')
       (''JSONB and extension support provide flexibility while maintaining ''
          @ ''SQL capabilities.'') r3)))"

definition mongodb_reasoning :: "inputs \<Rightarrow> error + string list" where
  "mongodb_reasoning user_inputs =
     bindE (append_if (key_is user_inputs ''scalability'' ''High'')
              (''Built-in sharding provides excellent horizontal scalability ''
                 @ ''without complex configuration.'')
              [''MongoDB is the best choice for your scalability and flexibility needs.'']) (\<lambda>r1.
     bindE (append_if (key_is user_inputs ''schema_flexibility'' ''Yes'')
              (''Schema-less design allows rapid iteration and accommodates ''
                 @ ''evolving data models.'') r1) (\<lambda>r2.
     bindE (append_if (key_is user_inputs ''app_type'' ''Real-time'')
              (''Optimized for high-throughput real-time applications with ''
                 @ ''low-latency operations.'') r2) (\<lambda>r3.
     append_if (key_is user_inputs ''data_structure'' ''Unstructured'')
       (''Document model naturally fits unstructured and hierarchical data.'') r3)))"

text \<open>The f-string of the close-competition note, for runner-up \<open>p1\<close> and top profile \<open>p0\<close>.\<close>

definition closeness_note :: "DatabaseProfile \<Rightarrow> DatabaseProfile \<Rightarrow> string" where
  "closeness_note p1 p0 =
     ''Note: '' @ name p1 @ '' scored closely ''
       @ ''('' @ str_int (score p1) @ '' vs '' @ str_int (score p0) @ ''). ''
       @ ''Consider evaluating both options based on team expertise.''"

definition candidate_reasoning :: "DatabaseProfile \<Rightarrow> inputs \<Rightarrow> error + string list" where
  "candidate_reasoning top_db user_inputs =
     (if name top_db = ''MySQL'' then mysql_reasoning user_inputs
      else if name top_db = ''PostgreSQL'' then postgresql_reasoning user_inputs
      else mongodb_reasoning user_inputs)"

definition generate_recommendation :: "DatabaseProfile list \<Rightarrow> inputs \<Rightarrow> error + Recommendation" where
  "generate_recommendation profs user_inputs =
     (case profs of
        [] \<Rightarrow> Inl IndexError
      | top_db # _ \<Rightarrow>
          bindE (candidate_reasoning top_db user_inputs) (\<lambda>r.
          let r' = (if length profs > 1
                    then (let score_diff = score (profs ! 0) - score (profs ! 1)
                          in if score_diff \<le> 2
                             then r @ [closeness_note (profs ! 1) (profs ! 0)] else r)
                    else r);
              score_diff = (if length profs > 1 then score (profs ! 0) - score (profs ! 1) else 5);
              conf = (if score_diff > 3 then ''High''
                      else if score_diff > 1 then ''Medium'' else ''Low'')
          in Inr \<lparr>database = name top_db, confidence = conf, reasoning = r'\<rparr>))"

section \<open>\<open>suggest_alternatives\<close>\<close>

definition clickhouse_alternative :: Alternative where
  "clickhouse_alternative =
     \<lparr>Alternative.database = ''ClickHouse or Apache Druid'',
      reason = ''Columnar databases optimized for massive-scale analytics and ''
        @ ''OLAP queries with superior compression and query performance.''\<rparr>"

definition redis_alternative :: Alternative where
  "redis_alternative =
     \<lparr>Alternative.database = ''Redis or Apache Kafka'',
      reason = ''In-memory data stores and streaming platforms optimized for ''
        @ ''real-time data processing and sub-millisecond latency.''\<rparr>"

definition cockroach_alternative :: Alternative where
  "cockroach_alternative =
     \<lparr>Alternative.database = ''CockroachDB or Google Spanner'',
      reason = ''Distributed SQL databases offering both horizontal scalability and ''
        @ ''strong consistency (bypassing CAP theorem limitations).''\<rparr>"

definition elasticsearch_alternative :: Alternative where
  "elasticsearch_alternative =
     \<lparr>Alternative.database = ''Elasticsearch'',
      reason = ''Excellent for full-text search, log analytics, and unstructured ''
        @ ''data exploration with powerful aggregation capabilities.''\<rparr>"

definition timescale_alternative :: Alternative where
  "timescale_alternative =
     \<lparr>Alternative.database = ''TimescaleDB or InfluxDB'',
      reason = ''Specialized time-series databases for IoT, monitoring, and ''
        @ ''event-driven applications requiring time-based queries.''\<rparr>"

definition suggest_alternatives :: "inputs \<Rightarrow> error + Alternative list" where
  "suggest_alternatives user_inputs =
     bindE (append_if (and_then (key_is user_inputs ''app_type'' ''Analytics'')
                                (key_is user_inputs ''scalability'' ''High''))
              clickhouse_alternative []) (\<lambda>a1.
     bindE (append_if (and_then (key_is user_inputs ''app_type'' ''Real-time'')
                                (key_is user_inputs ''data_structure'' ''Unstructured''))
              redis_alternative a1) (\<lambda>a2.
     bindE (append_if (and_then (key_is user_inputs ''scalability'' ''High'')
                                (key_is user_inputs ''transactions'' ''High''))
              cockroach_alternative a2) (\<lambda>a3.
     bindE (append_if (and_then (key_is user_inputs ''data_structure'' ''Unstructured'')
                                (key_is user_inputs ''app_type'' ''Analytics''))
              elasticsearch_alternative a3) (\<lambda>a4.
     append_if (key_is user_inputs ''app_type'' ''Real-time'') timescale_alternative a4))))"

section \<open>\<open>analyze\<close>\<close>

definition analyze :: "inputs \<Rightarrow> error + AnalysisResult" where
  "analyze user_inputs =
     bindE (calculate_scores user_inputs) (\<lambda>sc.
     bindE (generate_database_profiles sc) (\<lambda>ps.
     bindE (identify_tradeoffs user_inputs) (\<lambda>ts.
     bindE (generate_recommendation ps user_inputs) (\<lambda>rc.
     bindE (suggest_alternatives user_inputs) (\<lambda>al.
     Inr \<lparr>profiles = ps, tradeoffs = ts, recommendation = rc,
          alternatives = al, scores = sc\<rparr>)))))"

section \<open>Vocabulary of the specification\<close>

text \<open>The five fields of an analysis input, in the order \<open>calculate_scores\<close> reads them.\<close>

definition required_keys :: "string list" where
  "required_keys =
     [''app_type'', ''data_structure'', ''scalability'', ''transactions'', ''schema_flexibility'']"

definition has_all_keys :: "inputs \<Rightarrow> bool" where
  "has_all_keys inp = list_all (\<lambda>k. inp k \<noteq> None) required_keys"

text \<open>
  The enumeration of each field, as the radio buttons of \<open>app.py\<close> offer it. A valid input
  has all five fields, each holding a value of its enumeration.
\<close>

definition options :: "(string \<times> string list) list" where
  "options =
     [(''app_type'', [''Web'', ''Analytics'', ''Real-time'']),
      (''data_structure'', [''Structured'', ''Semi-structured'', ''Unstructured'']),
      (''scalability'', [''Low'', ''Medium'', ''High'']),
      (''transactions'', [''Low'', ''High'']),
      (''schema_flexibility'', [''Yes'', ''No''])]"

definition valid_input :: "inputs \<Rightarrow> bool" where
  "valid_input inp =
     list_all (\<lambda>(k, opts). case inp k of None \<Rightarrow> False | Some v \<Rightarrow> v \<in> set opts) options"

text \<open>The five criteria: the field and the score matrix it is looked up in.\<close>

definition criteria :: "(string \<times> score_table) list" where
  "criteria =
     [(''app_type'', app_type_scores),
      (''data_structure'', data_structure_scores),
      (''scalability'', scalability_scores),
      (''transactions'', transaction_scores),
      (''schema_flexibility'', schema_scores)]"

text \<open>
  \<open>table[v][db]\<close> as an optional value: \<open>None\<close> when \<open>v\<close> is not a key of the matrix (or
  \<open>db\<close> not a key of the row). \<open>entries inp db\<close> lists the five lookups for candidate \<open>db\<close>;
  an absent entry counts as zero in \<open>total_score\<close>.
\<close>

definition matrix_entry :: "score_table \<Rightarrow> string \<Rightarrow> string \<Rightarrow> int option" where
  "matrix_entry table v db =
     (case map_of table v of None \<Rightarrow> None | Some row \<Rightarrow> map_of row db)"

definition entries :: "inputs \<Rightarrow> string \<Rightarrow> int option list" where
  "entries inp db =
     map (\<lambda>(key, table). case inp key of None \<Rightarrow> None | Some v \<Rightarrow> matrix_entry table v db)
       criteria"

definition contribution :: "int option \<Rightarrow> int" where
  "contribution e = (case e of None \<Rightarrow> 0 | Some n \<Rightarrow> n)"

definition total_score :: "inputs \<Rightarrow> string \<Rightarrow> int" where
  "total_score inp db = sum_list (map contribution (entries inp db))"

text \<open>A score dictionary over exactly the three candidates, with value \<open>t db\<close> at \<open>db\<close>.\<close>

definition score_dict :: "(string \<Rightarrow> int) \<Rightarrow> score_map" where
  "score_dict t = (\<lambda>db. if db \<in> set databases then Some (t db) else None)"

text \<open>
  The fixed priority order of the candidates by display name, and the ranking order:
  a higher score first, and for equal scores the candidate of higher priority first.
\<close>

definition candidate_names :: "string list" where
  "candidate_names = [''MySQL'', ''PostgreSQL'', ''MongoDB'']"

definition priority :: "string \<Rightarrow> nat" where
  "priority nm = length (takeWhile (\<lambda>n. n \<noteq> nm) candidate_names)"

definition ranked_before :: "DatabaseProfile \<Rightarrow> DatabaseProfile \<Rightarrow> bool" where
  "ranked_before p q =
     (score q < score p \<or> (score q = score p \<and> priority (name p) < priority (name q)))"

text \<open>The gap between the top score and the runner-up score, 5 without a runner-up.\<close>

definition score_gap :: "DatabaseProfile list \<Rightarrow> int" where
  "score_gap profs = (if length profs > 1 then score (profs ! 0) - score (profs ! 1) else 5)"

text \<open>
  The rules of \<open>identify_tradeoffs\<close> and of \<open>suggest_alternatives\<close> as tables of trigger and
  result, in declaration order, and the results of the rules whose trigger holds.
\<close>

definition holds :: "inputs \<Rightarrow> string \<Rightarrow> string \<Rightarrow> bool" where
  "holds inp key v = (inp key = Some v)"

definition tradeoff_rules :: "((inputs \<Rightarrow> bool) \<times> Tradeoff) list" where
  "tradeoff_rules =
     [(\<lambda>i. holds i ''data_structure'' ''Structured'' \<and> holds i ''schema_flexibility'' ''Yes'',
       schema_tradeoff),
      (\<lambda>i. holds i ''scalability'' ''High'' \<and> holds i ''transactions'' ''High'',
       consistency_tradeoff),
      (\<lambda>i. holds i ''app_type'' ''Analytics'' \<and> holds i ''scalability'' ''High'',
       analytics_tradeoff),
      (\<lambda>i. holds i ''data_structure'' ''Unstructured'' \<and> holds i ''transactions'' ''High'',
       document_tradeoff),
      (\<lambda>i. holds i ''app_type'' ''Web'', read_write_tradeoff)]"

definition alternative_rules :: "((inputs \<Rightarrow> bool) \<times> Alternative) list" where
  "alternative_rules =
     [(\<lambda>i. holds i ''app_type'' ''Analytics'' \<and> holds i ''scalability'' ''High'',
       clickhouse_alternative),
      (\<lambda>i. holds i ''app_type'' ''Real-time'' \<and> holds i ''data_structure'' ''Unstructured'',
       redis_alternative),
      (\<lambda>i. holds i ''scalability'' ''High'' \<and> holds i ''transactions'' ''High'',
       cockroach_alternative),
      (\<lambda>i. holds i ''data_structure'' ''Unstructured'' \<and> holds i ''app_type'' ''Analytics'',
       elasticsearch_alternative),
      (\<lambda>i. holds i ''app_type'' ''Real-time'', timescale_alternative)]"

definition firing :: "((inputs \<Rightarrow> bool) \<times> 'a) list \<Rightarrow> inputs \<Rightarrow> 'a list" where
  "firing rules inp = map snd (filter (\<lambda>(trigger, r). trigger inp) rules)"

text \<open>Every row of a score matrix has an entry for each of the three candidates.\<close>

definition complete :: "score_table \<Rightarrow> bool" where
  "complete table = (\<forall>(v, row)\<in>set table. \<forall>db\<in>set databases. map_of row db \<noteq> None)"

text \<open>The profiles in the order of \<open>databases\<close>, before sorting, with scores \<open>t\<close>.\<close>

definition unsorted_profiles :: "(string \<Rightarrow> int) \<Rightarrow> DatabaseProfile list" where
  "unsorted_profiles t =
     map (\<lambda>(k, e). \<lparr>name = entry_name e, db_type = entry_type e, score = t k,
                      pros = entry_pros e, cons = entry_cons e\<rparr>) db_profiles"

text \<open>The confidence level as a function of the score gap.\<close>

definition confidence_of :: "int \<Rightarrow> string" where
  "confidence_of gap = (if gap > 3 then ''High'' else if gap > 1 then ''Medium'' else ''Low'')"

section \<open>Closed forms of the operations\<close>

lemma bindE_simps [simp]: "bindE (Inl e) f = Inl e" "bindE (Inr v) f = f v"
  by (simp_all add: bindE_def)

lemma score_dict_initial: "map_of (map (\<lambda>db. (db, 0)) databases) = score_dict (\<lambda>_. 0)"
  by (auto simp: databases_def score_dict_def fun_eq_iff)

lemma add_row_score_dict:
  assumes "\<forall>db\<in>set databases. row db = Some (r db)"
  shows "add_row row databases (score_dict t) = Inr (score_dict (\<lambda>db. t db + r db))"
  using assms by (auto simp: databases_def score_dict_def getitem_def fun_eq_iff)

lemma complete_tables:
  "complete app_type_scores" "complete data_structure_scores" "complete scalability_scores"
  "complete transaction_scores" "complete schema_scores"
  by (simp_all add: complete_def databases_def app_type_scores_def data_structure_scores_def
      scalability_scores_def transaction_scores_def schema_scores_def)

lemma score_criterion_missing:
  "inp key = None \<Longrightarrow> score_criterion inp key table sc = Inl (KeyError key)"
  by (simp add: score_criterion_def getitem_def)

lemma score_criterion_score_dict:
  assumes "inp key = Some v" and "complete table"
  shows "score_criterion inp key table (score_dict t)
         = Inr (score_dict (\<lambda>db. t db + contribution (matrix_entry table v db)))"
proof (cases "map_of table v")
  case None
  then show ?thesis using assms(1)
    by (simp add: score_criterion_def getitem_def matrix_entry_def contribution_def)
next
  case (Some row)
  then have "(v, row) \<in> set table" by (rule map_of_SomeD)
  with assms(2) have "\<forall>db\<in>set databases. map_of row db = Some (the (map_of row db))"
    by (auto simp: complete_def)
  then have "add_row (map_of row) databases (score_dict t)
             = Inr (score_dict (\<lambda>db. t db + the (map_of row db)))"
    by (rule add_row_score_dict)
  moreover have "score_dict (\<lambda>db. t db + the (map_of row db))
             = score_dict (\<lambda>db. t db + contribution (matrix_entry table v db))"
    using Some \<open>\<forall>db\<in>set databases. map_of row db = Some (the (map_of row db))\<close>
    by (auto simp: score_dict_def matrix_entry_def contribution_def fun_eq_iff split: option.splits)
  ultimately show ?thesis using assms(1) Some
    by (simp add: score_criterion_def getitem_def)
qed

lemma has_all_keysD:
  assumes "has_all_keys inp"
  obtains a b c d e where "inp ''app_type'' = Some a" "inp ''data_structure'' = Some b"
    "inp ''scalability'' = Some c" "inp ''transactions'' = Some d" "inp ''schema_flexibility'' = Some e"
  using assms by (auto simp: has_all_keys_def required_keys_def)

lemma calculate_scores_closed:
  assumes "has_all_keys inp"
  shows "calculate_scores inp = Inr (score_dict (total_score inp))"
proof -
  from assms obtain a b c d e where k: "inp ''app_type'' = Some a" "inp ''data_structure'' = Some b"
    "inp ''scalability'' = Some c" "inp ''transactions'' = Some d" "inp ''schema_flexibility'' = Some e"
    by (rule has_all_keysD)
  have "total_score inp = (\<lambda>db. 0 + contribution (matrix_entry app_type_scores a db)
     + contribution (matrix_entry data_structure_scores b db)
     + contribution (matrix_entry scalability_scores c db)
     + contribution (matrix_entry transaction_scores d db)
     + contribution (matrix_entry schema_scores e db))"
    by (simp add: total_score_def entries_def criteria_def k fun_eq_iff)
  then show ?thesis
    by (simp add: calculate_scores_def score_dict_initial score_criterion_score_dict k complete_tables)
qed

lemma build_profiles_score_dict:
  "build_profiles (score_dict t) databases = Inr (unsorted_profiles t)"
  by (simp add: databases_def score_dict_def getitem_def unsorted_profiles_def db_profiles_def)

lemma generate_database_profiles_score_dict:
  "generate_database_profiles (score_dict t) = Inr (sort_reverse score (unsorted_profiles t))"
  by (simp add: generate_database_profiles_def build_profiles_score_dict)

lemma ranked_sort_reverse:
  "sorted_wrt ranked_before (sort_reverse score (unsorted_profiles t))"
  by (auto simp add: sort_reverse_def unsorted_profiles_def db_profiles_def sort_key_def
      ranked_before_def priority_def candidate_names_def)

lemma descending_sort_reverse:
  "sorted_wrt (\<lambda>p q. score q \<le> score p) (sort_reverse score xs)"
proof -
  have "sorted (map score (sort_key score (rev xs)))" by (rule sorted_sort_key)
  then have "sorted_wrt (\<lambda>p q. score p \<le> score q) (sort_key score (rev xs))"
    by (simp add: sorted_map)
  then show ?thesis by (simp add: sort_reverse_def sorted_wrt_rev)
qed

lemma length_sort_reverse: "length (sort_reverse f xs) = length xs"
  by (simp add: sort_reverse_def)

lemma set_sort_reverse: "set (sort_reverse f xs) = set xs"
  by (simp add: sort_reverse_def)

lemma distinct_names_sort_reverse:
  "distinct (map name (sort_reverse score (unsorted_profiles t)))"
  by (auto simp add: sort_reverse_def unsorted_profiles_def db_profiles_def sort_key_def)

lemma names_sort_reverse:
  "set (map name (sort_reverse score (unsorted_profiles t))) = set candidate_names"
  by (simp add: set_sort_reverse unsorted_profiles_def db_profiles_def candidate_names_def)

lemma key_is_present: "inp key \<noteq> None \<Longrightarrow> key_is inp key v = Inr (holds inp key v)"
  by (auto simp add: key_is_def getitem_def holds_def)

lemma key_is_not_present: "inp key \<noteq> None \<Longrightarrow> key_is_not inp key v = Inr (\<not> holds inp key v)"
  by (auto simp add: key_is_not_def getitem_def holds_def)

lemma and_then_Inr [simp]: "and_then (Inr a) (Inr b) = Inr (a \<and> b)"
  by (simp add: and_then_def)

lemma append_if_Inr [simp]: "append_if (Inr c) x xs = Inr (if c then xs @ [x] else xs)"
  by (simp add: append_if_def)

lemma identify_tradeoffs_closed:
  assumes "has_all_keys inp"
  shows "identify_tradeoffs inp = Inr (firing tradeoff_rules inp)"
proof -
  from assms obtain a b c d e where k: "inp ''app_type'' = Some a" "inp ''data_structure'' = Some b"
    "inp ''scalability'' = Some c" "inp ''transactions'' = Some d" "inp ''schema_flexibility'' = Some e"
    by (rule has_all_keysD)
  show ?thesis
    by (simp add: identify_tradeoffs_def firing_def tradeoff_rules_def
        key_is_present k)
qed

lemma suggest_alternatives_closed:
  assumes "has_all_keys inp"
  shows "suggest_alternatives inp = Inr (firing alternative_rules inp)"
proof -
  from assms obtain a b c d e where k: "inp ''app_type'' = Some a" "inp ''data_structure'' = Some b"
    "inp ''scalability'' = Some c" "inp ''transactions'' = Some d" "inp ''schema_flexibility'' = Some e"
    by (rule has_all_keysD)
  show ?thesis
    by (simp add: suggest_alternatives_def firing_def alternative_rules_def
        key_is_present k)
qed

lemma candidate_reasoning_ok:
  assumes "has_all_keys inp"
  shows "\<exists>base. candidate_reasoning p inp = Inr base \<and> base \<noteq> [] \<and> (\<forall>s\<in>set base. hd s \<noteq> CHR ''N'')"
proof -
  from assms obtain a b c d e where k: "inp ''app_type'' = Some a" "inp ''data_structure'' = Some b"
    "inp ''scalability'' = Some c" "inp ''transactions'' = Some d" "inp ''schema_flexibility'' = Some e"
    by (rule has_all_keysD)
  show ?thesis
    by (simp add: candidate_reasoning_def mysql_reasoning_def postgresql_reasoning_def
        mongodb_reasoning_def
        key_is_present key_is_not_present k)
qed

lemma hd_closeness_note: "hd (closeness_note p q) = CHR ''N''"
  by (simp add: closeness_note_def)

lemma generate_recommendation_closed:
  assumes "candidate_reasoning p inp = Inr base"
  shows "generate_recommendation (p # rest) inp =
     Inr \<lparr>database = name p, confidence = confidence_of (score_gap (p # rest)),
          reasoning = base @ (if rest \<noteq> [] \<and> score p - score (hd rest) \<le> 2
                              then [closeness_note (hd rest) p] else [])\<rparr>"
  using assms
  by (cases rest) (simp_all add: generate_recommendation_def score_gap_def confidence_of_def Let_def)

lemma generate_recommendation_empty: "generate_recommendation [] inp = Inl IndexError"
  by (simp add: generate_recommendation_def)

lemma sorted_profiles_nonempty:
  "\<exists>p rest. sort_reverse score (unsorted_profiles t) = p # rest"
proof -
  have "length (sort_reverse score (unsorted_profiles t)) = 3"
    by (simp add: length_sort_reverse unsorted_profiles_def db_profiles_def)
  then show ?thesis by (cases "sort_reverse score (unsorted_profiles t)") simp_all
qed

lemma analyze_closed:
  assumes "has_all_keys inp"
  shows "\<exists>rc. generate_recommendation (sort_reverse score (unsorted_profiles (total_score inp))) inp
               = Inr rc \<and>
          analyze inp = Inr \<lparr>profiles = sort_reverse score (unsorted_profiles (total_score inp)),
            tradeoffs = firing tradeoff_rules inp, recommendation = rc,
            alternatives = firing alternative_rules inp,
            scores = score_dict (total_score inp)\<rparr>"
proof -
  obtain p rest where ps: "sort_reverse score (unsorted_profiles (total_score inp)) = p # rest"
    using sorted_profiles_nonempty by blast
  obtain base where "candidate_reasoning p inp = Inr base"
    using candidate_reasoning_ok [OF assms] by blast
  then have "\<exists>rc. generate_recommendation (p # rest) inp = Inr rc"
    by (simp add: generate_recommendation_closed)
  then obtain rc where rc: "generate_recommendation (p # rest) inp = Inr rc" ..
  show ?thesis
    using rc ps
    by (simp add: analyze_def calculate_scores_closed [OF assms]
        generate_database_profiles_score_dict identify_tradeoffs_closed [OF assms]
        suggest_alternatives_closed [OF assms])
qed

lemma calculate_scores_first_missing:
  assumes "find (\<lambda>k. inp k = None) required_keys = Some k"
  shows "calculate_scores inp = Inl (KeyError k)"
  using assms
  by (auto simp add: required_keys_def calculate_scores_def score_dict_initial
      score_criterion_score_dict complete_tables score_criterion_missing split: if_splits)

lemma find_missing_None: "find (\<lambda>k. inp k = None) required_keys = None \<longleftrightarrow> has_all_keys inp"
  by (auto simp add: has_all_keys_def find_None_iff list_all_iff)

lemma valid_input_has_all_keys: "valid_input inp \<Longrightarrow> has_all_keys inp"
  by (auto simp add: valid_input_def options_def has_all_keys_def required_keys_def
      split: option.splits)

lemma entry_bounds:
  assumes "db \<in> set databases"
  shows "v \<in> {''Web'', ''Analytics'', ''Real-time''} \<Longrightarrow>
           \<exists>c. matrix_entry app_type_scores v db = Some c \<and> 1 \<le> c \<and> c \<le> 4"
    and "v \<in> {''Structured'', ''Semi-structured'', ''Unstructured''} \<Longrightarrow>
           \<exists>c. matrix_entry data_structure_scores v db = Some c \<and> 1 \<le> c \<and> c \<le> 4"
    and "v \<in> {''Low'', ''Medium'', ''High''} \<Longrightarrow>
           \<exists>c. matrix_entry scalability_scores v db = Some c \<and> 1 \<le> c \<and> c \<le> 4"
    and "v \<in> {''Low'', ''High''} \<Longrightarrow>
           \<exists>c. matrix_entry transaction_scores v db = Some c \<and> 1 \<le> c \<and> c \<le> 4"
    and "v \<in> {''Yes'', ''No''} \<Longrightarrow>
           \<exists>c. matrix_entry schema_scores v db = Some c \<and> 1 \<le> c \<and> c \<le> 4"
  using assms
  by (auto simp add: databases_def matrix_entry_def app_type_scores_def data_structure_scores_def
      scalability_scores_def transaction_scores_def schema_scores_def)

lemma valid_inputD:
  assumes "valid_input inp"
  obtains a b c d e where
    "inp ''app_type'' = Some a" "a \<in> {''Web'', ''Analytics'', ''Real-time''}"
    "inp ''data_structure'' = Some b" "b \<in> {''Structured'', ''Semi-structured'', ''Unstructured''}"
    "inp ''scalability'' = Some c" "c \<in> {''Low'', ''Medium'', ''High''}"
    "inp ''transactions'' = Some d" "d \<in> {''Low'', ''High''}"
    "inp ''schema_flexibility'' = Some e" "e \<in> {''Yes'', ''No''}"
  using assms by (auto simp add: valid_input_def options_def split: option.splits)

lemma not_note_prefix: "hd s \<noteq> CHR ''N'' \<Longrightarrow> take 6 s \<noteq> ''Note: ''"
  by (cases s) simp_all

lemmas eval_defs = analyze_def calculate_scores_def score_criterion_def getitem_def bindE_def databases_def
  app_type_scores_def data_structure_scores_def scalability_scores_def transaction_scores_def schema_scores_def
  generate_database_profiles_def sort_reverse_def db_profiles_def identify_tradeoffs_def key_is_def key_is_not_def and_then_def append_if_def
  generate_recommendation_def candidate_reasoning_def mysql_reasoning_def postgresql_reasoning_def mongodb_reasoning_def 
  suggest_alternatives_def

section \<open>Claims\<close>

text \<open>
  C1 (amended). The module has no validation step and no \<open>ValidationError\<close>. An input
  that lacks one of the five fields makes \<open>analyze\<close> raise \<open>KeyError\<close> for the first
  missing field, in the order \<open>app_type\<close>, \<open>data_structure\<close>, \<open>scalability\<close>,
  \<open>transactions\<close>, \<open>schema_flexibility\<close>, and no result is returned; an input that has
  all five fields never raises, whatever values the fields hold.
\<close>

theorem analyze_raises_iff_field_missing:
  "(\<forall>k. find (\<lambda>k. inp k = None) required_keys = Some k \<longrightarrow> analyze inp = Inl (KeyError k)) \<and>
   (find (\<lambda>k. inp k = None) required_keys = None \<longrightarrow> \<not> isl (analyze inp))"
proof (intro conjI allI impI)
  fix k assume "find (\<lambda>k. inp k = None) required_keys = Some k"
  then show "analyze inp = Inl (KeyError k)"
    by (simp add: analyze_def calculate_scores_first_missing)
next
  assume "find (\<lambda>k. inp k = None) required_keys = None"
  then have "has_all_keys inp" by (simp add: find_missing_None)
  from analyze_closed [OF this] show "\<not> isl (analyze inp)" by auto
qed

text \<open>
  Both cases at concrete inputs: \<open>scalability\<close> is the first missing field of the first
  input, and the second input has all five fields.
\<close>

theorem analyze_raises_iff_field_missing_witness:
  "analyze [''app_type'' \<mapsto> ''Web'', ''data_structure'' \<mapsto> ''Structured'']
     = Inl (KeyError ''scalability'') \<and>
   \<not> isl (analyze [''app_type'' \<mapsto> ''Web'', ''data_structure'' \<mapsto> ''Structured'',
       ''scalability'' \<mapsto> ''Low'', ''transactions'' \<mapsto> ''High'', ''schema_flexibility'' \<mapsto> ''No''])"
  using analyze_raises_iff_field_missing
      [of "[''app_type'' \<mapsto> ''Web'', ''data_structure'' \<mapsto> ''Structured'']"]
    analyze_raises_iff_field_missing
      [of "[''app_type'' \<mapsto> ''Web'', ''data_structure'' \<mapsto> ''Structured'',
       ''scalability'' \<mapsto> ''Low'', ''transactions'' \<mapsto> ''High'', ''schema_flexibility'' \<mapsto> ''No'']"]
  by (simp add: required_keys_def)

text \<open>
  C1 as stated fails: \<open>app_type = Mobile\<close> is outside the enumeration of the field, and
  \<open>analyze\<close> returns a result instead of raising.
\<close>

theorem unknown_value_not_rejected:
  "\<not> valid_input [''app_type'' \<mapsto> ''Mobile'', ''data_structure'' \<mapsto> ''Structured'',
       ''scalability'' \<mapsto> ''Low'', ''transactions'' \<mapsto> ''High'', ''schema_flexibility'' \<mapsto> ''No''] \<and>
   \<not> isl (analyze [''app_type'' \<mapsto> ''Mobile'', ''data_structure'' \<mapsto> ''Structured'',
       ''scalability'' \<mapsto> ''Low'', ''transactions'' \<mapsto> ''High'', ''schema_flexibility'' \<mapsto> ''No''])"
  by (simp add: valid_input_def options_def eval_defs)

text \<open>
  C2. For the input Web, Structured, Low, High, No the scores are MySQL 18, PostgreSQL 18,
  MongoDB 9; MySQL is ranked first, ahead of PostgreSQL with the same score; the gap is 0
  and the confidence is Low; the only trade-off is the one of the rule for Web applications
  (its title in the source reads "Read Optimization vs Write Optimization"); and the last
  reasoning entry is the closeness note naming PostgreSQL with both scores.
\<close>

theorem scenario_web_structured:
  "\<exists>r. analyze [''app_type'' \<mapsto> ''Web'', ''data_structure'' \<mapsto> ''Structured'',
         ''scalability'' \<mapsto> ''Low'', ''transactions'' \<mapsto> ''High'',
         ''schema_flexibility'' \<mapsto> ''No''] = Inr r \<and>
     scores r ''mysql'' = Some 18 \<and> scores r ''postgresql'' = Some 18 \<and>
     scores r ''mongodb'' = Some 9 \<and>
     map name (profiles r) = [''MySQL'', ''PostgreSQL'', ''MongoDB''] \<and>
     map score (profiles r) = [18, 18, 9] \<and>
     database (recommendation r) = ''MySQL'' \<and>
     score_gap (profiles r) = 0 \<and>
     confidence (recommendation r) = ''Low'' \<and>
     tradeoffs r = [read_write_tradeoff] \<and>
     title read_write_tradeoff = ''Read Optimization vs Write Optimization'' \<and>
     last (reasoning (recommendation r)) =
       ''Note: PostgreSQL scored closely (18 vs 18). Consider evaluating both options based on team expertise.''"
  by (simp add: eval_defs score_gap_def closeness_note_def str_int_def str_nat.simps
      read_write_tradeoff_def)

text \<open>
  C3. For every valid input the ranked profiles are the three candidates' profiles, in
  descending order of score, and of two profiles with the same score the one whose
  candidate comes earlier in the order MySQL, PostgreSQL, MongoDB is ranked first
  (\<open>ranked_before\<close> holds between every earlier and every later profile). \<open>analyze\<close> is a
  function of its input, so the same input always gives the same ordering.
\<close>

theorem ranking_descending_with_priority_tie_break:
  assumes "valid_input inp"
  shows "\<exists>r. analyze inp = Inr r \<and>
           length (profiles r) = 3 \<and>
           set (profiles r) = set (unsorted_profiles (total_score inp)) \<and>
           sorted_wrt (\<lambda>p q. score q \<le> score p) (profiles r) \<and>
           sorted_wrt ranked_before (profiles r)"
proof -
  have "has_all_keys inp" using assms by (rule valid_input_has_all_keys)
  from analyze_closed [OF this] obtain r where
    r: "analyze inp = Inr r"
       "profiles r = sort_reverse score (unsorted_profiles (total_score inp))"
    by fastforce
  have "length (profiles r) = 3"
    by (simp add: r(2) length_sort_reverse unsorted_profiles_def db_profiles_def)
  then show ?thesis
    using r by (simp add: set_sort_reverse descending_sort_reverse ranked_sort_reverse)
qed

text \<open>The scenario of C2 is a valid input with a tie, resolved in favour of MySQL.\<close>

theorem ranking_descending_with_priority_tie_break_witness:
  "valid_input [''app_type'' \<mapsto> ''Web'', ''data_structure'' \<mapsto> ''Structured'',
         ''scalability'' \<mapsto> ''Low'', ''transactions'' \<mapsto> ''High'',
         ''schema_flexibility'' \<mapsto> ''No''] \<and>
   (\<exists>r. analyze [''app_type'' \<mapsto> ''Web'', ''data_structure'' \<mapsto> ''Structured'',
         ''scalability'' \<mapsto> ''Low'', ''transactions'' \<mapsto> ''High'',
         ''schema_flexibility'' \<mapsto> ''No''] = Inr r \<and>
      sorted_wrt ranked_before (profiles r) \<and>
      map name (profiles r) = [''MySQL'', ''PostgreSQL'', ''MongoDB''] \<and>
      map score (profiles r) = [18, 18, 9])"
proof -
  let ?inp = "[''app_type'' \<mapsto> ''Web'', ''data_structure'' \<mapsto> ''Structured'',
         ''scalability'' \<mapsto> ''Low'', ''transactions'' \<mapsto> ''High'',
         ''schema_flexibility'' \<mapsto> ''No'']"
  have v: "valid_input ?inp" by (simp add: valid_input_def options_def)
  from ranking_descending_with_priority_tie_break [OF v] obtain r where
    r: "analyze ?inp = Inr r" "sorted_wrt ranked_before (profiles r)" by blast
  from r(1) have n: "map name (profiles r) = [''MySQL'', ''PostgreSQL'', ''MongoDB'']"
    and s: "map score (profiles r) = [18, 18, 9]"
    by (auto simp add: eval_defs)
  show ?thesis
  proof (intro conjI exI [of _ r])
    show "valid_input ?inp" by (rule v)
    show "analyze ?inp = Inr r" by (rule r(1))
    show "sorted_wrt ranked_before (profiles r)" by (rule r(2))
    show "map name (profiles r) = [''MySQL'', ''PostgreSQL'', ''MongoDB'']" by (rule n)
    show "map score (profiles r) = [18, 18, 9]" by (rule s)
  qed
qed

text \<open>
  C4. For every non-empty ranked list and every input with the five fields,
  \<open>generate_recommendation\<close> returns a recommendation whose confidence is High iff the gap
  exceeds 3, Medium iff the gap is above 1 and at most 3, and Low iff the gap is at most 1,
  where the gap is the top score minus the runner-up score when there are at least two
  profiles; with fewer than two profiles the gap is 5 and the confidence is High. (On the
  empty list there is no top profile and no recommendation: \<open>profiles[0]\<close> raises
  \<open>IndexError\<close>, lemma \<open>generate_recommendation_empty\<close>.)
\<close>

theorem confidence_from_score_gap:
  assumes "profs \<noteq> []" and "has_all_keys inp"
  shows "\<exists>rc. generate_recommendation profs inp = Inr rc \<and>
           (confidence rc = ''High'' \<longleftrightarrow> 3 < score_gap profs) \<and>
           (confidence rc = ''Medium'' \<longleftrightarrow> 1 < score_gap profs \<and> score_gap profs \<le> 3) \<and>
           (confidence rc = ''Low'' \<longleftrightarrow> score_gap profs \<le> 1) \<and>
           (2 \<le> length profs \<longrightarrow> score_gap profs = score (profs ! 0) - score (profs ! 1)) \<and>
           (length profs < 2 \<longrightarrow> score_gap profs = 5 \<and> confidence rc = ''High'')"
proof -
  from assms(1) obtain p rest where ps: "profs = p # rest" by (cases profs) auto
  obtain base where "candidate_reasoning p inp = Inr base"
    using candidate_reasoning_ok [OF assms(2)] by blast
  then have "generate_recommendation (p # rest) inp =
     Inr \<lparr>database = name p, confidence = confidence_of (score_gap (p # rest)),
          reasoning = base @ (if rest \<noteq> [] \<and> score p - score (hd rest) \<le> 2
                              then [closeness_note (hd rest) p] else [])\<rparr>"
    by (rule generate_recommendation_closed)
  then show ?thesis
    unfolding ps by (cases rest) (simp_all add: confidence_of_def score_gap_def)
qed

text \<open>A ranked list of one profile: no runner-up, so the confidence is High.\<close>

theorem confidence_from_score_gap_witness:
  "\<exists>rc. generate_recommendation
          [\<lparr>name = ''MongoDB'', db_type = ''NoSQL (Document)'', score = 7, pros = [], cons = []\<rparr>]
          [''app_type'' \<mapsto> ''Web'', ''data_structure'' \<mapsto> ''Structured'',
           ''scalability'' \<mapsto> ''Low'', ''transactions'' \<mapsto> ''High'',
           ''schema_flexibility'' \<mapsto> ''No''] = Inr rc \<and>
        confidence rc = ''High''"
proof -
  let ?ps = "[\<lparr>name = ''MongoDB'', db_type = ''NoSQL (Document)'', score = 7, pros = [], cons = []\<rparr>]"
  let ?inp = "[''app_type'' \<mapsto> ''Web'', ''data_structure'' \<mapsto> ''Structured'',
           ''scalability'' \<mapsto> ''Low'', ''transactions'' \<mapsto> ''High'',
           ''schema_flexibility'' \<mapsto> ''No'']"
  have a: "?ps \<noteq> []" by simp
  have b: "has_all_keys ?inp" by (simp add: has_all_keys_def required_keys_def)
  from confidence_from_score_gap [OF a b] obtain rc where
    rc: "generate_recommendation ?ps ?inp = Inr rc"
    and l: "length ?ps < 2 \<longrightarrow> score_gap ?ps = 5 \<and> confidence rc = ''High''"
    by blast
  from l have "confidence rc = ''High''" by simp
  with rc show ?thesis by (intro exI [of _ rc] conjI)
qed

text \<open>
  C5. For every valid input and each of the three candidates, the five matrix lookups
  \<open>table[user_inputs[key]][db]\<close> all succeed, each value lies between 0 and 4, the
  candidate's total is their sum, and the total lies between 5 and 20.
\<close>

theorem total_score_bounds:
  assumes "valid_input inp" and "db \<in> set databases"
  shows "\<exists>s cs. calculate_scores inp = Inr s \<and>
           entries inp db = map Some cs \<and> length cs = 5 \<and>
           (\<forall>c\<in>set cs. 0 \<le> c \<and> c \<le> 4) \<and>
           s db = Some (sum_list cs) \<and> 5 \<le> sum_list cs \<and> sum_list cs \<le> 20"
proof -
  from assms(1) obtain a b c d e where k:
    "inp ''app_type'' = Some a" "a \<in> {''Web'', ''Analytics'', ''Real-time''}"
    "inp ''data_structure'' = Some b" "b \<in> {''Structured'', ''Semi-structured'', ''Unstructured''}"
    "inp ''scalability'' = Some c" "c \<in> {''Low'', ''Medium'', ''High''}"
    "inp ''transactions'' = Some d" "d \<in> {''Low'', ''High''}"
    "inp ''schema_flexibility'' = Some e" "e \<in> {''Yes'', ''No''}"
    by (rule valid_inputD)
  from entry_bounds(1) [OF assms(2) k(2)] obtain c1 where
    c1: "matrix_entry app_type_scores a db = Some c1" "1 \<le> c1" "c1 \<le> 4" by blast
  from entry_bounds(2) [OF assms(2) k(4)] obtain c2 where
    c2: "matrix_entry data_structure_scores b db = Some c2" "1 \<le> c2" "c2 \<le> 4" by blast
  from entry_bounds(3) [OF assms(2) k(6)] obtain c3 where
    c3: "matrix_entry scalability_scores c db = Some c3" "1 \<le> c3" "c3 \<le> 4" by blast
  from entry_bounds(4) [OF assms(2) k(8)] obtain c4 where
    c4: "matrix_entry transaction_scores d db = Some c4" "1 \<le> c4" "c4 \<le> 4" by blast
  from entry_bounds(5) [OF assms(2) k(10)] obtain c5 where
    c5: "matrix_entry schema_scores e db = Some c5" "1 \<le> c5" "c5 \<le> 4" by blast
  let ?cs = "[c1, c2, c3, c4, c5]"
  have e: "entries inp db = map Some ?cs"
    by (simp add: entries_def criteria_def k c1 c2 c3 c4 c5)
  have "has_all_keys inp" using assms(1) by (rule valid_input_has_all_keys)
  then have cs: "calculate_scores inp = Inr (score_dict (total_score inp))"
    by (rule calculate_scores_closed)
  have t: "score_dict (total_score inp) db = Some (sum_list ?cs)"
    using assms(2) by (simp add: score_dict_def total_score_def e contribution_def)
  have b: "(\<forall>x\<in>set ?cs. 0 \<le> x \<and> x \<le> 4) \<and> 5 \<le> sum_list ?cs \<and> sum_list ?cs \<le> 20"
    using c1(2,3) c2(2,3) c3(2,3) c4(2,3) c5(2,3) by simp
  show ?thesis
    using cs e t b by (intro exI [of _ "score_dict (total_score inp)"] exI [of _ ?cs]) simp
qed

text \<open>The five contributions to MongoDB in the scenario of C2, with total 9.\<close>

theorem total_score_bounds_witness:
  "\<exists>s cs. calculate_scores [''app_type'' \<mapsto> ''Web'', ''data_structure'' \<mapsto> ''Structured'',
           ''scalability'' \<mapsto> ''Low'', ''transactions'' \<mapsto> ''High'',
           ''schema_flexibility'' \<mapsto> ''No''] = Inr s \<and>
      entries [''app_type'' \<mapsto> ''Web'', ''data_structure'' \<mapsto> ''Structured'',
           ''scalability'' \<mapsto> ''Low'', ''transactions'' \<mapsto> ''High'',
           ''schema_flexibility'' \<mapsto> ''No''] ''mongodb'' = map Some cs \<and>
      cs = [2, 1, 2, 2, 2] \<and> s ''mongodb'' = Some 9"
proof -
  let ?inp = "[''app_type'' \<mapsto> ''Web'', ''data_structure'' \<mapsto> ''Structured'',
           ''scalability'' \<mapsto> ''Low'', ''transactions'' \<mapsto> ''High'',
           ''schema_flexibility'' \<mapsto> ''No'']"
  have v: "valid_input ?inp" by (simp add: valid_input_def options_def)
  have d: "''mongodb'' \<in> set databases" by (simp add: databases_def)
  from total_score_bounds [OF v d] obtain s cs where
    r: "calculate_scores ?inp = Inr s" "entries ?inp ''mongodb'' = map Some cs"
       "s ''mongodb'' = Some (sum_list cs)" by blast
  have "entries ?inp ''mongodb'' = map Some [2, 1, 2, 2, 2]"
    by (simp add: entries_def criteria_def matrix_entry_def app_type_scores_def
        data_structure_scores_def scalability_scores_def transaction_scores_def schema_scores_def)
  with r(2) have "map Some cs = map Some [2, 1, 2, 2, 2]"
    by (simp only:)
  then have cs: "cs = [2, 1, 2, 2, 2]"
    by (rule map_injective) simp
  with r(3) have "s ''mongodb'' = Some 9" by simp
  with r cs show ?thesis by (intro exI [of _ s] exI [of _ cs] conjI)
qed

text \<open>
  C6. With all five fields present \<open>calculate_scores\<close> returns, and each candidate's total
  is the sum over the five criteria of the matrix entry, counted as zero where the value is
  absent from the matrix; for a criterion whose value is absent from its matrix the block
  of \<open>calculate_scores\<close> leaves every score dictionary unchanged and raises nothing.
\<close>

theorem unknown_value_contributes_zero:
  assumes "has_all_keys inp"
  shows "\<exists>s. calculate_scores inp = Inr s \<and>
           (\<forall>db\<in>set databases. s db = Some (sum_list (map contribution (entries inp db)))) \<and>
           (\<forall>(key, table)\<in>set criteria. \<forall>v. inp key = Some v \<and> map_of table v = None \<longrightarrow>
              (\<forall>sc. score_criterion inp key table sc = Inr sc) \<and>
              (\<forall>db. contribution (matrix_entry table v db) = 0))"
proof -
  have "calculate_scores inp = Inr (score_dict (total_score inp))"
    using assms by (rule calculate_scores_closed)
  moreover have "\<forall>db\<in>set databases.
      score_dict (total_score inp) db = Some (sum_list (map contribution (entries inp db)))"
    by (simp add: score_dict_def total_score_def)
  moreover have "\<forall>(key, table)\<in>set criteria. \<forall>v. inp key = Some v \<and> map_of table v = None \<longrightarrow>
              (\<forall>sc. score_criterion inp key table sc = Inr sc) \<and>
              (\<forall>db. contribution (matrix_entry table v db) = 0)"
    by (auto simp add: score_criterion_def getitem_def matrix_entry_def contribution_def)
  ultimately show ?thesis by blast
qed

text \<open>
  \<open>app_type = Mobile\<close> is absent from \<open>app_type_scores\<close>: the totals are the sums of the
  other four criteria, 4 + 3 + 4 + 4, 4 + 3 + 4 + 4 and 1 + 2 + 2 + 2.
\<close>

theorem unknown_value_contributes_zero_witness:
  "\<exists>s. calculate_scores [''app_type'' \<mapsto> ''Mobile'', ''data_structure'' \<mapsto> ''Structured'',
           ''scalability'' \<mapsto> ''Low'', ''transactions'' \<mapsto> ''High'',
           ''schema_flexibility'' \<mapsto> ''No''] = Inr s \<and>
        s ''mysql'' = Some 15 \<and> s ''postgresql'' = Some 15 \<and> s ''mongodb'' = Some 7 \<and>
        (\<forall>sc. score_criterion [''app_type'' \<mapsto> ''Mobile'', ''data_structure'' \<mapsto> ''Structured'',
           ''scalability'' \<mapsto> ''Low'', ''transactions'' \<mapsto> ''High'',
           ''schema_flexibility'' \<mapsto> ''No''] ''app_type'' app_type_scores sc = Inr sc)"
proof -
  let ?inp = "[''app_type'' \<mapsto> ''Mobile'', ''data_structure'' \<mapsto> ''Structured'',
           ''scalability'' \<mapsto> ''Low'', ''transactions'' \<mapsto> ''High'',
           ''schema_flexibility'' \<mapsto> ''No'']"
  have h: "has_all_keys ?inp" by (simp add: has_all_keys_def required_keys_def)
  from unknown_value_contributes_zero [OF h] obtain s where
    s: "calculate_scores ?inp = Inr s"
      "\<forall>db\<in>set databases. s db = Some (sum_list (map contribution (entries ?inp db)))"
      "\<forall>(key, table)\<in>set criteria. \<forall>v. ?inp key = Some v \<and> map_of table v = None \<longrightarrow>
              (\<forall>sc. score_criterion ?inp key table sc = Inr sc) \<and>
              (\<forall>db. contribution (matrix_entry table v db) = 0)"
    by blast
  from s(2) have t: "s ''mysql'' = Some 15 \<and> s ''postgresql'' = Some 15 \<and> s ''mongodb'' = Some 7"
    by (simp add: databases_def entries_def criteria_def matrix_entry_def contribution_def
        app_type_scores_def data_structure_scores_def scalability_scores_def
        transaction_scores_def schema_scores_def)
  from s(3) have "\<forall>sc. score_criterion ?inp ''app_type'' app_type_scores sc = Inr sc"
    by (simp add: criteria_def app_type_scores_def)
  with s(1) t show ?thesis by (intro exI [of _ s] conjI) simp_all
qed

text \<open>
  C7. For a non-empty ranked list and an input with the five fields, the reasoning list is
  the top candidate's sentences followed by the closeness note exactly when there is a
  runner-up and the top score minus the runner-up score is at most 2, and is the top
  candidate's sentences alone otherwise. The note is the text "Note: ", the runner-up's
  name, " scored closely (", the runner-up's score, " vs ", the top score, and the closing
  advice, with both scores in decimal. No sentence of a candidate begins with "Note: ", so
  an entry beginning with "Note: " occurs in the reasoning iff that condition holds, and
  then it is the last entry.
\<close>

theorem closeness_note_iff_close_runner_up:
  assumes "profs \<noteq> []" and "has_all_keys inp"
  shows "\<exists>rc base. generate_recommendation profs inp = Inr rc \<and>
           candidate_reasoning (hd profs) inp = Inr base \<and>
           (\<forall>p q. closeness_note p q \<notin> set base) \<and>
           reasoning rc = base @
             (if 1 < length profs \<and> score (profs ! 0) - score (profs ! 1) \<le> 2
              then [closeness_note (profs ! 1) (profs ! 0)] else []) \<and>
           ((\<exists>p q. closeness_note p q \<in> set (reasoning rc)) \<longleftrightarrow>
              1 < length profs \<and> score (profs ! 0) - score (profs ! 1) \<le> 2) \<and>
           (1 < length profs \<and> score (profs ! 0) - score (profs ! 1) \<le> 2 \<longrightarrow>
              last (reasoning rc) = closeness_note (profs ! 1) (profs ! 0)) \<and>
           (\<forall>s\<in>set base. take 6 s \<noteq> ''Note: '') \<and>
           ((\<exists>s\<in>set (reasoning rc). take 6 s = ''Note: '') \<longleftrightarrow>
              1 < length profs \<and> score (profs ! 0) - score (profs ! 1) \<le> 2) \<and>
           (1 < length profs \<and> score (profs ! 0) - score (profs ! 1) \<le> 2 \<longrightarrow>
              reasoning rc = base @
                [''Note: '' @ name (profs ! 1) @ '' scored closely (''
                   @ str_int (score (profs ! 1)) @ '' vs '' @ str_int (score (profs ! 0))
                   @ ''). Consider evaluating both options based on team expertise.''] \<and>
              last (reasoning rc) =
                ''Note: '' @ name (profs ! 1) @ '' scored closely (''
                   @ str_int (score (profs ! 1)) @ '' vs '' @ str_int (score (profs ! 0))
                   @ ''). Consider evaluating both options based on team expertise.'') \<and>
           (\<not> (1 < length profs \<and> score (profs ! 0) - score (profs ! 1) \<le> 2) \<longrightarrow>
              reasoning rc = base)"
proof -
  from assms(1) obtain p rest where ps: "profs = p # rest" by (cases profs) auto
  obtain base where base: "candidate_reasoning p inp = Inr base"
    "\<forall>s\<in>set base. hd s \<noteq> CHR ''N''"
    using candidate_reasoning_ok [OF assms(2)] by blast
  have no_note: "\<forall>a b. closeness_note a b \<notin> set base"
    using base(2) hd_closeness_note by blast
  have no_prefix: "\<forall>s\<in>set base. take 6 s \<noteq> ''Note: ''"
    using base(2) not_note_prefix by blast
  have content: "\<And>a b. closeness_note a b =
      ''Note: '' @ name a @ '' scored closely ('' @ str_int (score a) @ '' vs ''
        @ str_int (score b) @ ''). Consider evaluating both options based on team expertise.''"
    by (simp add: closeness_note_def)
  have prefix: "\<And>a b. take 6 (closeness_note a b) = ''Note: ''"
    by (simp add: closeness_note_def)
  let ?rc = "\<lparr>database = name p, confidence = confidence_of (score_gap (p # rest)),
          reasoning = base @ (if rest \<noteq> [] \<and> score p - score (hd rest) \<le> 2
                              then [closeness_note (hd rest) p] else [])\<rparr>"
  have rc: "generate_recommendation (p # rest) inp = Inr ?rc"
    using base(1) by (rule generate_recommendation_closed)
  show ?thesis
  proof (cases rest)
    case Nil
    with rc base(1) no_note no_prefix show ?thesis unfolding ps by simp
  next
    case (Cons q rest')
    have "\<exists>a b. closeness_note a b = closeness_note q p" by blast
    with Cons rc base(1) no_note no_prefix prefix [of q p] content [of q p, symmetric]
    show ?thesis unfolding ps by simp
  qed
qed

text \<open>
  A runner-up two points behind: the note is the last entry and reads MySQL, 10 and 12.
\<close>

theorem closeness_note_iff_close_runner_up_witness:
  "\<exists>rc base. generate_recommendation
          [\<lparr>name = ''PostgreSQL'', db_type = ''Relational (SQL)'', score = 12, pros = [], cons = []\<rparr>,
           \<lparr>name = ''MySQL'', db_type = ''Relational (SQL)'', score = 10, pros = [], cons = []\<rparr>]
          [''app_type'' \<mapsto> ''Web'', ''data_structure'' \<mapsto> ''Structured'',
           ''scalability'' \<mapsto> ''Low'', ''transactions'' \<mapsto> ''High'',
           ''schema_flexibility'' \<mapsto> ''No''] = Inr rc \<and>
        reasoning rc = base @
          [''Note: MySQL scored closely (10 vs 12). Consider evaluating both options based on team expertise.''] \<and>
        last (reasoning rc) =
          ''Note: MySQL scored closely (10 vs 12). Consider evaluating both options based on team expertise.''"
proof -
  let ?ps = "[\<lparr>name = ''PostgreSQL'', db_type = ''Relational (SQL)'', score = 12, pros = [], cons = []\<rparr>,
           \<lparr>name = ''MySQL'', db_type = ''Relational (SQL)'', score = 10, pros = [], cons = []\<rparr>]"
  let ?inp = "[''app_type'' \<mapsto> ''Web'', ''data_structure'' \<mapsto> ''Structured'',
           ''scalability'' \<mapsto> ''Low'', ''transactions'' \<mapsto> ''High'',
           ''schema_flexibility'' \<mapsto> ''No'']"
  let ?note = "''Note: '' @ name (?ps ! 1) @ '' scored closely (''
                   @ str_int (score (?ps ! 1)) @ '' vs '' @ str_int (score (?ps ! 0))
                   @ ''). Consider evaluating both options based on team expertise.''"
  have a: "?ps \<noteq> []" by simp
  have b: "has_all_keys ?inp" by (simp add: has_all_keys_def required_keys_def)
  from closeness_note_iff_close_runner_up [OF a b] obtain rc base where
    rc: "generate_recommendation ?ps ?inp = Inr rc"
    and l: "1 < length ?ps \<and> score (?ps ! 0) - score (?ps ! 1) \<le> 2 \<longrightarrow>
              reasoning rc = base @ [?note] \<and> last (reasoning rc) = ?note"
    by blast
  have n: "?note =
      ''Note: MySQL scored closely (10 vs 12). Consider evaluating both options based on team expertise.''"
    by (simp add: str_int_def str_nat.simps)
  from l have "reasoning rc = base @ [?note] \<and> last (reasoning rc) = ?note" by simp
  then have "reasoning rc = base @
          [''Note: MySQL scored closely (10 vs 12). Consider evaluating both options based on team expertise.''] \<and>
        last (reasoning rc) =
          ''Note: MySQL scored closely (10 vs 12). Consider evaluating both options based on team expertise.''"
    unfolding n .
  with rc show ?thesis by (intro exI [of _ rc] exI [of _ base] conjI) simp_all
qed



text \<open>
  C9. For the input Real-time, Unstructured, High, Low, Yes the top-ranked candidate and
  the recommended database is MongoDB (19 against 10 and 8), and the alternatives are the
  Redis/Kafka one followed by the TimescaleDB/InfluxDB one; for every valid input
  \<open>suggest_alternatives\<close> returns the alternatives of all rules whose trigger holds.
\<close>

theorem scenario_realtime_unstructured:
  "(\<exists>r. analyze [''app_type'' \<mapsto> ''Real-time'', ''data_structure'' \<mapsto> ''Unstructured'',
           ''scalability'' \<mapsto> ''High'', ''transactions'' \<mapsto> ''Low'',
           ''schema_flexibility'' \<mapsto> ''Yes''] = Inr r \<and>
      map name (profiles r) = [''MongoDB'', ''PostgreSQL'', ''MySQL''] \<and>
      map score (profiles r) = [19, 10, 8] \<and>
      database (recommendation r) = ''MongoDB'' \<and>
      alternatives r = [redis_alternative, timescale_alternative] \<and>
      map Alternative.database (alternatives r) =
        [''Redis or Apache Kafka'', ''TimescaleDB or InfluxDB'']) \<and>
   (\<forall>inp. valid_input inp \<longrightarrow> suggest_alternatives inp = Inr (firing alternative_rules inp))"
proof (rule conjI)
  show "\<forall>inp. valid_input inp \<longrightarrow> suggest_alternatives inp = Inr (firing alternative_rules inp)"
    using suggest_alternatives_closed valid_input_has_all_keys by blast
  show "\<exists>r. analyze [''app_type'' \<mapsto> ''Real-time'', ''data_structure'' \<mapsto> ''Unstructured'',
           ''scalability'' \<mapsto> ''High'', ''transactions'' \<mapsto> ''Low'',
           ''schema_flexibility'' \<mapsto> ''Yes''] = Inr r \<and>
      map name (profiles r) = [''MongoDB'', ''PostgreSQL'', ''MySQL''] \<and>
      map score (profiles r) = [19, 10, 8] \<and>
      database (recommendation r) = ''MongoDB'' \<and>
      alternatives r = [redis_alternative, timescale_alternative] \<and>
      map Alternative.database (alternatives r) =
        [''Redis or Apache Kafka'', ''TimescaleDB or InfluxDB'']"
    by (simp add: eval_defs redis_alternative_def timescale_alternative_def)
qed

text \<open>The general part at the scenario's input: both Real-time rules fire.\<close>

theorem scenario_realtime_unstructured_witness:
  "valid_input [''app_type'' \<mapsto> ''Real-time'', ''data_structure'' \<mapsto> ''Unstructured'',
           ''scalability'' \<mapsto> ''High'', ''transactions'' \<mapsto> ''Low'',
           ''schema_flexibility'' \<mapsto> ''Yes''] \<and>
   suggest_alternatives [''app_type'' \<mapsto> ''Real-time'', ''data_structure'' \<mapsto> ''Unstructured'',
           ''scalability'' \<mapsto> ''High'', ''transactions'' \<mapsto> ''Low'',
           ''schema_flexibility'' \<mapsto> ''Yes'']
     = Inr [redis_alternative, timescale_alternative]"
proof -
  let ?inp = "[''app_type'' \<mapsto> ''Real-time'', ''data_structure'' \<mapsto> ''Unstructured'',
           ''scalability'' \<mapsto> ''High'', ''transactions'' \<mapsto> ''Low'',
           ''schema_flexibility'' \<mapsto> ''Yes'']"
  have v: "valid_input ?inp" by (simp add: valid_input_def options_def)
  have f: "firing alternative_rules ?inp = [redis_alternative, timescale_alternative]"
    by (simp add: firing_def alternative_rules_def holds_def)
  from scenario_realtime_unstructured have
    "valid_input ?inp \<longrightarrow> suggest_alternatives ?inp = Inr (firing alternative_rules ?inp)"
    by blast
  with v f show ?thesis by simp
qed

text \<open>
  C10. For every input with the five keys, whatever their values, \<open>analyze\<close> returns a
  result; the score dictionary is defined on exactly \<open>mysql\<close>, \<open>postgresql\<close>, \<open>mongodb\<close>;
  and the ranked list has three profiles with three different names, MySQL, PostgreSQL
  and MongoDB, namely the three candidates' profiles carrying their totals.
\<close>

theorem analyze_returns_on_five_keys:
  assumes "has_all_keys inp"
  shows "\<exists>r. analyze inp = Inr r \<and>
           dom (scores r) = set databases \<and>
           length (profiles r) = 3 \<and>
           distinct (map name (profiles r)) \<and>
           set (map name (profiles r)) = set candidate_names \<and>
           set (profiles r) = set (unsorted_profiles (total_score inp)) \<and>
           (\<forall>db\<in>set databases. scores r db = Some (total_score inp db))"
proof -
  from analyze_closed [OF assms] obtain r where
    r: "analyze inp = Inr r"
       "profiles r = sort_reverse score (unsorted_profiles (total_score inp))"
       "scores r = score_dict (total_score inp)"
    by fastforce
  have "dom (score_dict (total_score inp)) = set databases"
    by (auto simp add: score_dict_def dom_def)
  moreover have "length (sort_reverse score (unsorted_profiles (total_score inp))) = 3"
    by (simp add: length_sort_reverse unsorted_profiles_def db_profiles_def)
  ultimately show ?thesis
    using r distinct_names_sort_reverse [of "total_score inp"]
      names_sort_reverse [of "total_score inp"]
    by (intro exI [of _ r]) (simp add: set_sort_reverse score_dict_def)
qed

text \<open>Two values outside their enumerations: a result with three scores and profiles.\<close>

theorem analyze_returns_on_five_keys_witness:
  "has_all_keys [''app_type'' \<mapsto> ''Mobile'', ''data_structure'' \<mapsto> ''Graph'',
           ''scalability'' \<mapsto> ''Low'', ''transactions'' \<mapsto> ''High'',
           ''schema_flexibility'' \<mapsto> ''No''] \<and>
   (\<exists>r. analyze [''app_type'' \<mapsto> ''Mobile'', ''data_structure'' \<mapsto> ''Graph'',
           ''scalability'' \<mapsto> ''Low'', ''transactions'' \<mapsto> ''High'',
           ''schema_flexibility'' \<mapsto> ''No''] = Inr r \<and>
      dom (scores r) = set databases \<and> length (profiles r) = 3 \<and>
      set (map name (profiles r)) = set candidate_names)"
proof -
  let ?inp = "[''app_type'' \<mapsto> ''Mobile'', ''data_structure'' \<mapsto> ''Graph'',
           ''scalability'' \<mapsto> ''Low'', ''transactions'' \<mapsto> ''High'',
           ''schema_flexibility'' \<mapsto> ''No'']"
  have h: "has_all_keys ?inp" by (simp add: has_all_keys_def required_keys_def)
  from analyze_returns_on_five_keys [OF h] obtain r where
    "analyze ?inp = Inr r" "dom (scores r) = set databases" "length (profiles r) = 3"
    "set (map name (profiles r)) = set candidate_names" by blast
  with h show ?thesis by (intro conjI exI [of _ r])
qed

end
